theory Spec2Isabelle
  imports Complex_Main "HOL-Library.Word" "HOL-Library.Signed_Division"
begin

section \<open>Constants and on-disk data structures of fs.c\<close>

named_theorems fs_defs \<open>defining equations of the embedding, for evaluation\<close>

definition FS_MAGIC :: "32 word" where
  [fs_defs]: "FS_MAGIC = 0xf0f03410"

definition INODES_PER_BLOCK :: int where
  [fs_defs]: "INODES_PER_BLOCK = 128"

definition POINTERS_PER_INODE :: int where
  [fs_defs]: "POINTERS_PER_INODE = 5"

definition POINTERS_PER_BLOCK :: int where
  [fs_defs]: "POINTERS_PER_BLOCK = 1024"

text \<open>Modelled from the spec: \<open>DISK_BLOCK_SIZE\<close> comes from disk.h, which is not among the
  sources. The union \<open>fs_block\<close> overlays 1024 four-byte pointers, 128 inodes of eight
  \<open>int\<close>s and \<open>DISK_BLOCK_SIZE\<close> chars, and the spec's scenario writes one block with
  4096 bytes, so the block size is 4096.\<close>

definition DISK_BLOCK_SIZE :: int where
  [fs_defs]: "DISK_BLOCK_SIZE = 4096"

type_synonym byte = "8 word"

text \<open>
  \<open>union fs_block\<close>: the storage of one block, indexed as \<open>int pointers[1024]\<close>. Every
  C \<open>int\<close> in a block is a 32-bit word; the program's local \<open>int\<close> variables are HOL
  integers, read from a block with \<open>sint\<close> and stored with \<open>word_of_int\<close> (which wraps).
  Arithmetic on the locals is exact: the theorems below are about inputs on which no C
  \<open>int\<close> overflows, and where a bound is needed for that it is a hypothesis.
  Indices from 1024 on do not exist in the C union; the model never reads or writes them.
\<close>

type_synonym block = "nat \<Rightarrow> 32 word"

record fs_superblock =
  magic :: int
  nblocks :: int
  ninodeblocks :: int
  ninodes :: int

record fs_inode =
  isvalid :: int
  isize :: int
  direct :: "int list"
  indirect :: int

text \<open>The view \<open>block.super\<close>: the first four \<open>int\<close>s of the block.\<close>

definition super_view :: "block \<Rightarrow> fs_superblock" where
  "super_view b =
     \<lparr>magic = sint (b 0), nblocks = sint (b 1), ninodeblocks = sint (b 2), ninodes = sint (b 3)\<rparr>"

definition super_store :: "block \<Rightarrow> fs_superblock \<Rightarrow> block" where
  "super_store b s =
     (\<lambda>j. if j = 0 then word_of_int (magic s)
          else if j = 1 then word_of_int (nblocks s)
          else if j = 2 then word_of_int (ninodeblocks s)
          else if j = 3 then word_of_int (ninodes s)
          else b j)"

text \<open>
  The comparison \<open>super.magic == FS_MAGIC\<close>: \<open>FS_MAGIC\<close> does not fit an \<open>int\<close>, so it is an
  \<open>unsigned int\<close> constant and \<open>magic\<close> is converted to \<open>unsigned int\<close> for the comparison.
\<close>

definition has_magic :: "fs_superblock \<Rightarrow> bool" where
  [fs_defs]: "has_magic s \<longleftrightarrow> (word_of_int (magic s) :: 32 word) = FS_MAGIC"

text \<open>The view \<open>block.inode[k]\<close>: eight \<open>int\<close>s from index \<open>8 * k\<close>.\<close>

definition inode_view :: "block \<Rightarrow> nat \<Rightarrow> fs_inode" where
  "inode_view b k =
     \<lparr>isvalid = sint (b (8 * k)), isize = sint (b (8 * k + 1)),
      direct = [sint (b (8 * k + 2)), sint (b (8 * k + 3)), sint (b (8 * k + 4)),
                sint (b (8 * k + 5)), sint (b (8 * k + 6))],
      indirect = sint (b (8 * k + 7))\<rparr>"

definition inode_store :: "block \<Rightarrow> nat \<Rightarrow> fs_inode \<Rightarrow> block" where
  "inode_store b k i =
     (\<lambda>j. if j = 8 * k then word_of_int (isvalid i)
          else if j = 8 * k + 1 then word_of_int (isize i)
          else if 8 * k + 2 \<le> j \<and> j < 8 * k + 7 then word_of_int (direct i ! (j - (8 * k + 2)))
          else if j = 8 * k + 7 then word_of_int (indirect i)
          else b j)"

text \<open>The view \<open>block.pointers[j]\<close>.\<close>

definition pointer_view :: "block \<Rightarrow> nat \<Rightarrow> int" where
  "pointer_view b j = sint (b j)"

definition pointer_store :: "block \<Rightarrow> nat \<Rightarrow> int \<Rightarrow> block" where
  "pointer_store b j v = (\<lambda>i. if i = j then word_of_int v else b i)"

text \<open>
  The view \<open>block.data[i]\<close>: byte \<open>i mod 4\<close> of the \<open>int\<close> at index \<open>i div 4\<close>, least
  significant byte first (the layout of the x86 machines the program was written for).
  \<open>data_store\<close> builds a block from its 4096 bytes.
\<close>

definition data_view :: "block \<Rightarrow> nat \<Rightarrow> byte" where
  "data_view b i = word_of_nat (unat (b (i div 4)) div 256 ^ (i mod 4))"

definition data_store :: "(nat \<Rightarrow> byte) \<Rightarrow> block" where
  "data_store f =
     (\<lambda>j. word_of_nat (unat (f (4 * j)) + 256 * unat (f (4 * j + 1))
            + 65536 * unat (f (4 * j + 2)) + 16777216 * unat (f (4 * j + 3))))"

text \<open>\<open>char new_block[DISK_BLOCK_SIZE] = {0}\<close>\<close>

definition zero_block :: block where
  "zero_block = (\<lambda>_. 0)"

section \<open>The block device\<close>

text \<open>
  What ends a call without a return value: a block number outside the device, and a
  memory access outside an array (undefined behaviour in C).
\<close>

datatype fault = DiskFault int | OutOfBounds

text \<open>Modelled from the spec: disk.c is not among the sources. The device is a fixed
  number of blocks; \<open>disk_size\<close> is the block count.\<close>

definition disk_size :: "block list \<Rightarrow> int" where
  [fs_defs]: "disk_size d = int (length d)"

text \<open>Modelled from the spec: \<open>disk_read\<close> of disk.c reads one whole block by its number. A
  block number outside the device does not return a block: the model gives the fault
  \<open>DiskFault\<close>.\<close>

definition disk_read :: "block list \<Rightarrow> int \<Rightarrow> fault + block" where
  [fs_defs]: "disk_read d blocknum =
     (if 0 \<le> blocknum \<and> blocknum < disk_size d then Inr (d ! nat blocknum)
      else Inl (DiskFault blocknum))"

text \<open>Modelled from the spec: \<open>disk_write\<close> of disk.c writes one whole block by its number,
  with the same fault outside the device.\<close>

definition disk_write :: "block list \<Rightarrow> int \<Rightarrow> block \<Rightarrow> fault + block list" where
  [fs_defs]: "disk_write d blocknum b =
     (if 0 \<le> blocknum \<and> blocknum < disk_size d then Inr (d[nat blocknum := b])
      else Inl (DiskFault blocknum))"

text \<open>
  The global variables \<open>is_mounted\<close> and \<open>free_block_bm\<close> (an array of \<open>nblocks\<close> booleans
  once mounted), together with the device.
\<close>

record fs_state =
  disk :: "block list"
  is_mounted :: bool
  free_block_bm :: "bool list"

text \<open>An assignment \<open>bm[i] = v\<close> to a boolean array of known length.\<close>

definition bm_set :: "bool list \<Rightarrow> int \<Rightarrow> bool \<Rightarrow> fault + bool list" where
  [fs_defs]: "bm_set bm i v =
     (if 0 \<le> i \<and> i < int (length bm) then Inr (bm[nat i := v]) else Inl OutOfBounds)"

text \<open>\<open>ceil((double) a / b)\<close> for a positive \<open>b\<close>; the quotient's ceiling is exact in a double
  for 32-bit operands.\<close>

definition ceil_div :: "int \<Rightarrow> int \<Rightarrow> int" where
  [fs_defs]: "ceil_div a b = - ((- a) div b)"

section \<open>Low level functions\<close>

text \<open>C's \<open>/\<close> and \<open>%\<close> on \<open>int\<close> truncate towards zero: \<open>sdiv\<close> and \<open>smod\<close>.\<close>

definition inode_load :: "block list \<Rightarrow> int \<Rightarrow> fault + fs_inode" where
  [fs_defs]: "inode_load d inumber =
     (let block_number = 1 + inumber sdiv INODES_PER_BLOCK;
          block_inode = inumber smod INODES_PER_BLOCK
      in case disk_read d block_number of
           Inl e \<Rightarrow> Inl e
         | Inr b \<Rightarrow> if block_inode < 0 then Inl OutOfBounds
                    else Inr (inode_view b (nat block_inode)))"

definition inode_save :: "block list \<Rightarrow> int \<Rightarrow> fs_inode \<Rightarrow> fault + block list" where
  [fs_defs]: "inode_save d inumber inode =
     (let block_number = 1 + inumber sdiv INODES_PER_BLOCK;
          block_inode = inumber smod INODES_PER_BLOCK
      in case disk_read d block_number of
           Inl e \<Rightarrow> Inl e
         | Inr b \<Rightarrow> if block_inode < 0 then Inl OutOfBounds
                    else disk_write d block_number (inode_store b (nat block_inode) inode))"

definition is_valid_inumber :: "block list \<Rightarrow> int \<Rightarrow> fault + bool" where
  [fs_defs]: "is_valid_inumber d inumber =
     (case disk_read d 0 of
        Inl e \<Rightarrow> Inl e
      | Inr super_block \<Rightarrow>
          if inumber > 0 \<and> inumber < ninodes (super_view super_block) then
            (case inode_load d inumber of
               Inl e \<Rightarrow> Inl e
             | Inr inode \<Rightarrow> Inr (isvalid inode \<noteq> 0))
          else Inr False)"

section \<open>Format, mount, create, delete, getsize\<close>

fun format_erase :: "int list \<Rightarrow> block list \<Rightarrow> fault + block list" where
  "format_erase [] d = Inr d"
| "format_erase (inode # rest) d =
     (case disk_write d (inode + 1) zero_block of
        Inl e \<Rightarrow> Inl e
      | Inr d' \<Rightarrow> format_erase rest d')"

text \<open>
  \<open>new_super\<close> is an uninitialised local union of which \<open>fs_format\<close> sets the four superblock
  fields: \<open>junk\<close> is what the stack held there, and the rest of block 0 receives it.
\<close>

definition fs_format :: "block \<Rightarrow> fs_state \<Rightarrow> fault + (int \<times> fs_state)" where
  [fs_defs]: "fs_format junk st =
     (if is_mounted st then Inr (0, st)
      else case disk_read (disk st) 0 of
        Inl e \<Rightarrow> Inl e
      | Inr super_block \<Rightarrow>
          (case (if has_magic (super_view super_block)
                 then format_erase [0 .. ninodeblocks (super_view super_block) - 1] (disk st)
                 else Inr (disk st)) of
             Inl e \<Rightarrow> Inl e
           | Inr d1 \<Rightarrow>
               let nib = ceil_div (disk_size d1) 10;
                   new_super = super_store junk
                     \<lparr>magic = sint FS_MAGIC, nblocks = disk_size d1, ninodeblocks = nib,
                      ninodes = nib * INODES_PER_BLOCK\<rparr>
               in (case disk_write d1 0 new_super of
                     Inl e \<Rightarrow> Inl e
                   | Inr d2 \<Rightarrow> Inr (1, st\<lparr>disk := d2\<rparr>))))"

text \<open>
  The loop body shared by the pointer scans of \<open>fs_mount\<close>, \<open>fs_delete\<close> and \<open>fs_read\<close>:
  \<open>if(size <= 0) break; if(ptr[k]){ bm[ptr[k]] = v; size -= DISK_BLOCK_SIZE; }\<close>
  over the indices \<open>ks\<close>. It returns the remaining size and the array.
\<close>

fun walk_pointers ::
  "bool \<Rightarrow> (int \<Rightarrow> int) \<Rightarrow> int list \<Rightarrow> int \<Rightarrow> bool list \<Rightarrow> fault + (int \<times> bool list)" where
  "walk_pointers v ptr [] sz bm = Inr (sz, bm)"
| "walk_pointers v ptr (k # ks) sz bm =
     (if sz \<le> 0 then Inr (sz, bm)
      else if ptr k \<noteq> 0 then
        (case bm_set bm (ptr k) v of
           Inl e \<Rightarrow> Inl e
         | Inr bm' \<Rightarrow> walk_pointers v ptr ks (sz - DISK_BLOCK_SIZE) bm')
      else walk_pointers v ptr ks sz bm)"

text \<open>The scan of one inode in \<open>fs_mount\<close> (the body of \<open>if(block.inode[inode].isvalid)\<close>).\<close>

definition mount_inode :: "block list \<Rightarrow> fs_inode \<Rightarrow> bool list \<Rightarrow> fault + bool list" where
  [fs_defs]: "mount_inode d inode bm =
     (case walk_pointers False (\<lambda>k. direct inode ! nat k) [0 .. POINTERS_PER_INODE - 1] (isize inode) bm of
        Inl e \<Rightarrow> Inl e
      | Inr (sz, bm1) \<Rightarrow>
          if sz > 0 \<and> indirect inode \<noteq> 0 then
            (case bm_set bm1 (indirect inode) False of
               Inl e \<Rightarrow> Inl e
             | Inr bm2 \<Rightarrow>
                 (case disk_read d (indirect inode) of
                    Inl e \<Rightarrow> Inl e
                  | Inr indirect_block \<Rightarrow>
                      (case walk_pointers False (\<lambda>k. pointer_view indirect_block (nat k))
                              [0 .. POINTERS_PER_BLOCK - 1] sz bm2 of
                         Inl e \<Rightarrow> Inl e
                       | Inr (sz', bm3) \<Rightarrow> Inr bm3)))
          else Inr bm1)"

fun mount_inodes :: "block list \<Rightarrow> block \<Rightarrow> int list \<Rightarrow> bool list \<Rightarrow> fault + bool list" where
  "mount_inodes d b [] bm = Inr bm"
| "mount_inodes d b (inode # rest) bm =
     (if isvalid (inode_view b (nat inode)) \<noteq> 0 then
        (case mount_inode d (inode_view b (nat inode)) bm of
           Inl e \<Rightarrow> Inl e
         | Inr bm' \<Rightarrow> mount_inodes d b rest bm')
      else mount_inodes d b rest bm)"

fun mount_blocks :: "block list \<Rightarrow> int list \<Rightarrow> bool list \<Rightarrow> fault + bool list" where
  "mount_blocks d [] bm = Inr bm"
| "mount_blocks d (inode_block # rest) bm =
     (case bm_set bm (inode_block + 1) False of
        Inl e \<Rightarrow> Inl e
      | Inr bm1 \<Rightarrow>
          (case disk_read d (inode_block + 1) of
             Inl e \<Rightarrow> Inl e
           | Inr b \<Rightarrow>
               (case mount_inodes d b [0 .. INODES_PER_BLOCK - 1] bm1 of
                  Inl e \<Rightarrow> Inl e
                | Inr bm2 \<Rightarrow> mount_blocks d rest bm2)))"

definition fs_mount :: "fs_state \<Rightarrow> fault + (int \<times> fs_state)" where
  [fs_defs]: "fs_mount st =
     (case disk_read (disk st) 0 of
        Inl e \<Rightarrow> Inl e
      | Inr super_block \<Rightarrow>
          if \<not> has_magic (super_view super_block) then Inr (0, st)
          else
            (case bm_set (replicate (nat (nblocks (super_view super_block))) True) 0 False of
               Inl e \<Rightarrow> Inl e
             | Inr bm0 \<Rightarrow>
                 (case mount_blocks (disk st)
                         [0 .. ninodeblocks (super_view super_block) - 1] bm0 of
                    Inl e \<Rightarrow> Inl e
                  | Inr bm \<Rightarrow> Inr (1, st\<lparr>is_mounted := True, free_block_bm := bm\<rparr>))))"

fun create_scan :: "int list \<Rightarrow> block list \<Rightarrow> fault + (int \<times> block list)" where
  "create_scan [] d = Inr (0, d)"
| "create_scan (inumber # rest) d =
     (case inode_load d inumber of
        Inl e \<Rightarrow> Inl e
      | Inr inode \<Rightarrow>
          if isvalid inode = 0 then
            (case inode_save d inumber
                    (inode\<lparr>isvalid := 1, isize := 0,
                           direct := replicate (nat POINTERS_PER_INODE) 0\<rparr>) of
               Inl e \<Rightarrow> Inl e
             | Inr d' \<Rightarrow> Inr (inumber, d'))
          else create_scan rest d)"

definition fs_create :: "fs_state \<Rightarrow> fault + (int \<times> fs_state)" where
  [fs_defs]: "fs_create st =
     (if \<not> is_mounted st then Inr (0, st)
      else case disk_read (disk st) 0 of
        Inl e \<Rightarrow> Inl e
      | Inr super_block \<Rightarrow>
          (case create_scan [1 .. ninodes (super_view super_block) - 1] (disk st) of
             Inl e \<Rightarrow> Inl e
           | Inr (inumber, d') \<Rightarrow> Inr (inumber, st\<lparr>disk := d'\<rparr>)))"

definition fs_delete :: "fs_state \<Rightarrow> int \<Rightarrow> fault + (int \<times> fs_state)" where
  [fs_defs]: "fs_delete st inumber =
     (if \<not> is_mounted st then Inr (0, st)
      else case is_valid_inumber (disk st) inumber of
        Inl e \<Rightarrow> Inl e
      | Inr False \<Rightarrow> Inr (0, st)
      | Inr True \<Rightarrow>
          (case inode_load (disk st) inumber of
             Inl e \<Rightarrow> Inl e
           | Inr inode \<Rightarrow>
               (case walk_pointers True (\<lambda>k. direct inode ! nat k) [0 .. POINTERS_PER_INODE - 1] (isize inode)
                       (free_block_bm st) of
                  Inl e \<Rightarrow> Inl e
                | Inr (sz, bm1) \<Rightarrow>
                    (case (if sz > 0 \<and> indirect inode \<noteq> 0 then
                             (case bm_set bm1 (indirect inode) True of
                                Inl e \<Rightarrow> Inl e
                              | Inr bm2 \<Rightarrow>
                                  (case disk_read (disk st) (indirect inode) of
                                     Inl e \<Rightarrow> Inl e
                                   | Inr indirect_block \<Rightarrow>
                                       walk_pointers True (\<lambda>k. pointer_view indirect_block (nat k))
                                         [0 .. POINTERS_PER_BLOCK - 1] sz bm2))
                           else Inr (sz, bm1)) of
                       Inl e \<Rightarrow> Inl e
                     | Inr (sz', bm') \<Rightarrow>
                         (case inode_save (disk st) inumber
                                 (inode\<lparr>isize := sz', isvalid := 0\<rparr>) of
                            Inl e \<Rightarrow> Inl e
                          | Inr d' \<Rightarrow> Inr (1, st\<lparr>disk := d', free_block_bm := bm'\<rparr>))))))"

definition fs_getsize :: "fs_state \<Rightarrow> int \<Rightarrow> fault + int" where
  [fs_defs]: "fs_getsize st inumber =
     (if \<not> is_mounted st then Inr (- 1)
      else case is_valid_inumber (disk st) inumber of
        Inl e \<Rightarrow> Inl e
      | Inr False \<Rightarrow> Inr (- 1)
      | Inr True \<Rightarrow>
          (case inode_load (disk st) inumber of
             Inl e \<Rightarrow> Inl e
           | Inr inode \<Rightarrow> Inr (isize inode)))"

section \<open>Read\<close>

text \<open>
  \<open>memcpy(data + read_counter, block.data + block_offset, n)\<close>: the \<open>n\<close> bytes of the block
  from \<open>block_offset\<close> on, appended to what the caller's buffer holds so far. Bytes outside
  the block buffer are an out-of-bounds access.
\<close>

definition block_bytes :: "block \<Rightarrow> int \<Rightarrow> int \<Rightarrow> fault + byte list" where
  [fs_defs]: "block_bytes b block_offset n =
     (if 0 \<le> block_offset \<and> 0 \<le> n \<and> block_offset + n \<le> DISK_BLOCK_SIZE
      then Inr (map (\<lambda>i. data_view b (nat i)) [block_offset .. block_offset + n - 1])
      else Inl OutOfBounds)"

text \<open>
  The loop \<open>for(b = 0; b < nblocks; b++)\<close> of \<open>fs_read\<close> over the boolean array \<open>blocks\<close>;
  \<open>out\<close> is the contents of the caller's buffer \<open>data[0 .. read_counter)\<close>.
\<close>

fun read_blocks ::
  "block list \<Rightarrow> bool list \<Rightarrow> int \<Rightarrow> int list \<Rightarrow> int \<Rightarrow> int \<Rightarrow> int \<Rightarrow> int \<Rightarrow> int \<Rightarrow> byte list
   \<Rightarrow> fault + (int \<times> byte list)" where
  "read_blocks d blocks offset [] len sz offset_ptr n_block read_counter out =
     Inr (read_counter, out)"
| "read_blocks d blocks offset (b # bs) len sz offset_ptr n_block read_counter out =
     (if len \<le> 0 \<or> sz \<le> 0 then Inr (read_counter, out)
      else if blocks ! nat b then
        (if offset_ptr = n_block then
           (let block_offset = (offset - offset_ptr * DISK_BLOCK_SIZE) smod DISK_BLOCK_SIZE
            in case disk_read d b of
                 Inl e \<Rightarrow> Inl e
               | Inr block \<Rightarrow>
                   if sz < DISK_BLOCK_SIZE then
                     (case block_bytes block block_offset sz of
                        Inl e \<Rightarrow> Inl e
                      | Inr bytes \<Rightarrow> Inr (read_counter + sz, out @ bytes))
                   else if block_offset + len < DISK_BLOCK_SIZE then
                     (case block_bytes block block_offset len of
                        Inl e \<Rightarrow> Inl e
                      | Inr bytes \<Rightarrow> Inr (read_counter + len, out @ bytes))
                   else
                     (case block_bytes block block_offset (DISK_BLOCK_SIZE - block_offset) of
                        Inl e \<Rightarrow> Inl e
                      | Inr bytes \<Rightarrow>
                          read_blocks d blocks offset bs
                            (len - (DISK_BLOCK_SIZE - block_offset)) (sz - DISK_BLOCK_SIZE)
                            (offset_ptr + 1) (n_block + 1)
                            (read_counter + (DISK_BLOCK_SIZE - block_offset)) (out @ bytes)))
         else read_blocks d blocks offset bs len (sz - DISK_BLOCK_SIZE) offset_ptr (n_block + 1)
                read_counter out)
      else read_blocks d blocks offset bs len sz offset_ptr n_block read_counter out)"

text \<open>
  \<open>fs_read\<close> returns \<open>read_counter\<close> and leaves \<open>data[0 .. read_counter)\<close> in the caller's
  buffer; it changes neither the device nor the globals.
\<close>

definition fs_read :: "fs_state \<Rightarrow> int \<Rightarrow> int \<Rightarrow> int \<Rightarrow> fault + (int \<times> byte list)" where
  [fs_defs]: "fs_read st inumber len offset =
     (if \<not> is_mounted st then Inr (0, [])
      else case is_valid_inumber (disk st) inumber of
        Inl e \<Rightarrow> Inl e
      | Inr False \<Rightarrow> Inr (0, [])
      | Inr True \<Rightarrow>
          if len \<le> 0 \<or> offset < 0 then Inr (0, [])
          else
            (case inode_load (disk st) inumber of
               Inl e \<Rightarrow> Inl e
             | Inr inode \<Rightarrow>
                 if offset \<ge> isize inode then Inr (0, [])
                 else
                   (case disk_read (disk st) 0 of
                      Inl e \<Rightarrow> Inl e
                    | Inr super_block \<Rightarrow>
                        (case walk_pointers True (\<lambda>k. direct inode ! nat k)
                                [0 .. POINTERS_PER_INODE - 1] (isize inode)
                                (replicate (nat (nblocks (super_view super_block))) False) of
                           Inl e \<Rightarrow> Inl e
                         | Inr (sz, blocks1) \<Rightarrow>
                             (case (if sz > 0 \<and> indirect inode \<noteq> 0 then
                                      (case disk_read (disk st) (indirect inode) of
                                         Inl e \<Rightarrow> Inl e
                                       | Inr indirect_block \<Rightarrow>
                                           walk_pointers True
                                             (\<lambda>k. pointer_view indirect_block (nat k))
                                             [0 .. POINTERS_PER_BLOCK - 1] sz blocks1)
                                    else Inr (sz, blocks1)) of
                                Inl e \<Rightarrow> Inl e
                              | Inr (sz', blocks) \<Rightarrow>
                                  read_blocks (disk st) blocks offset
                                    [0 .. nblocks (super_view super_block) - 1]
                                    len (isize inode) (offset sdiv DISK_BLOCK_SIZE) 0 0 [])))))"

section \<open>Write\<close>

text \<open>
  \<open>memcpy(block.data + block_offset, data + write_counter, n)\<close>: \<open>src\<close> is the memory at the
  caller's pointer \<open>data\<close>. A destination range outside the block buffer is an out-of-bounds
  access.
\<close>

definition memcpy_block :: "block \<Rightarrow> nat \<Rightarrow> (nat \<Rightarrow> byte) \<Rightarrow> nat \<Rightarrow> nat \<Rightarrow> block" where
  "memcpy_block b block_offset src write_counter n =
     data_store (\<lambda>i. if block_offset \<le> i \<and> i < block_offset + n
                     then src (write_counter + (i - block_offset))
                     else data_view b i)"

definition block_copy_in :: "block \<Rightarrow> int \<Rightarrow> (nat \<Rightarrow> byte) \<Rightarrow> int \<Rightarrow> int \<Rightarrow> fault + block" where
  [fs_defs]: "block_copy_in b block_offset src write_counter n =
     (if 0 \<le> block_offset \<and> 0 \<le> n \<and> block_offset + n \<le> DISK_BLOCK_SIZE \<and> 0 \<le> write_counter
      then Inr (memcpy_block b (nat block_offset) src (nat write_counter) (nat n))
      else Inl OutOfBounds)"

text \<open>The local variables of \<open>fs_write\<close> that its loops change, with the device and the
  free-block array.\<close>

record write_vars =
  w_length :: int
  w_offset_ptr :: int
  w_counter :: int
  w_inode :: fs_inode
  w_has_indirect :: bool
  w_free_direct :: int
  w_free_indirect :: int
  w_block :: block
  w_indirect_block :: block
  w_disk :: "block list"
  w_bm :: "bool list"

text \<open>
  The overwrite loop \<open>while(size - offset > 0)\<close>. The result's first component tells
  whether the loop left through \<open>return write_counter\<close>.
\<close>

function write_over ::
  "(nat \<Rightarrow> byte) \<Rightarrow> int \<Rightarrow> int \<Rightarrow> write_vars \<Rightarrow> fault + (bool \<times> write_vars)" where
  "write_over src offset sz s =
     (if sz - offset > 0 then
        (case (if w_offset_ptr s < POINTERS_PER_INODE then
                 (if 0 \<le> w_offset_ptr s then Inr (direct (w_inode s) ! nat (w_offset_ptr s))
                  else Inl OutOfBounds)
               else if w_offset_ptr s - POINTERS_PER_INODE < POINTERS_PER_BLOCK then
                 Inr (pointer_view (w_indirect_block s)
                        (nat (w_offset_ptr s - POINTERS_PER_INODE)))
               else Inl OutOfBounds) of
           Inl e \<Rightarrow> Inl e
         | Inr block_num \<Rightarrow>
             (let block_offset =
                    (offset - w_offset_ptr s * DISK_BLOCK_SIZE) smod DISK_BLOCK_SIZE
              in if block_offset + w_length s < DISK_BLOCK_SIZE then
                   (case block_copy_in (w_block s) block_offset src (w_counter s) (w_length s) of
                      Inl e \<Rightarrow> Inl e
                    | Inr block' \<Rightarrow>
                        (case disk_write (w_disk s) block_num block' of
                           Inl e \<Rightarrow> Inl e
                         | Inr d' \<Rightarrow>
                             Inr (True,
                                  s\<lparr>w_block := block', w_counter := w_counter s + w_length s,
                                    w_length := 0, w_disk := d',
                                    w_offset_ptr := w_offset_ptr s + 1\<rparr>)))
                 else
                   (case block_copy_in (w_block s) block_offset src (w_counter s)
                           (DISK_BLOCK_SIZE - block_offset) of
                      Inl e \<Rightarrow> Inl e
                    | Inr block' \<Rightarrow>
                        (case disk_write (w_disk s) block_num block' of
                           Inl e \<Rightarrow> Inl e
                         | Inr d' \<Rightarrow>
                             (let s' = s\<lparr>w_block := block',
                                         w_counter := w_counter s + (DISK_BLOCK_SIZE - block_offset),
                                         w_length := w_length s - (DISK_BLOCK_SIZE - block_offset),
                                         w_disk := d',
                                         w_offset_ptr := w_offset_ptr s + 1\<rparr>
                              in if w_length s' \<le> 0 then Inr (True, s')
                                 else write_over src offset
                                        (sz - (DISK_BLOCK_SIZE - block_offset)) s')))))
      else Inr (False, s))"
  by pat_completeness auto

termination write_over
proof (relation "measure (\<lambda>(src, offset, sz, s). nat (sz - offset))")
  show "wf (measure (\<lambda>(src, offset, sz, s). nat (sz - offset)))"
    by simp
next
  fix src :: "nat \<Rightarrow> byte" and offset sz :: int and s s' :: write_vars
    and block_num block_offset :: int and block' :: block
  assume pos: "0 < sz - offset"
    and bo: "block_offset = (offset - w_offset_ptr s * DISK_BLOCK_SIZE) smod DISK_BLOCK_SIZE"
  have "block_offset < 4096"
    unfolding bo DISK_BLOCK_SIZE_def
    using smod_int_range [where a = "offset - w_offset_ptr s * 4096" and b = 4096] by auto
  with pos show "((src, offset, sz - (DISK_BLOCK_SIZE - block_offset), s'), (src, offset, sz, s))
      \<in> measure (\<lambda>(src, offset, sz, s). nat (sz - offset))"
    by (simp add: DISK_BLOCK_SIZE_def)
qed

text \<open>
  The two branches that copy a chunk in the extension loop: the block buffer, the counter,
  \<open>inode.size\<close> and \<open>length\<close> after the \<open>memcpy\<close>.
\<close>

definition ext_chunk :: "(nat \<Rightarrow> byte) \<Rightarrow> int \<Rightarrow> write_vars \<Rightarrow> fault + write_vars" where
  [fs_defs]: "ext_chunk src offset s =
     (let block_offset = (offset - w_offset_ptr s * DISK_BLOCK_SIZE) smod DISK_BLOCK_SIZE
      in if block_offset + w_length s < DISK_BLOCK_SIZE then
           (case block_copy_in (w_block s) block_offset src (w_counter s) (w_length s) of
              Inl e \<Rightarrow> Inl e
            | Inr block' \<Rightarrow>
                Inr (s\<lparr>w_block := block', w_counter := w_counter s + w_length s,
                       w_inode := (w_inode s)\<lparr>isize := isize (w_inode s) + w_length s\<rparr>,
                       w_length := 0\<rparr>))
         else
           (case block_copy_in (w_block s) block_offset src (w_counter s)
                   (DISK_BLOCK_SIZE - block_offset) of
              Inl e \<Rightarrow> Inl e
            | Inr block' \<Rightarrow>
                Inr (s\<lparr>w_block := block',
                       w_counter := w_counter s + (DISK_BLOCK_SIZE - block_offset),
                       w_inode := (w_inode s)
                         \<lparr>isize := isize (w_inode s) + (DISK_BLOCK_SIZE - block_offset)\<rparr>,
                       w_length := w_length s - (DISK_BLOCK_SIZE - block_offset)\<rparr>)))"

text \<open>
  "Put the location of the new data block in a pointer to store in the inode": a free
  direct slot, else a free slot of the indirect block, else nowhere.
\<close>

definition ext_pointer :: "int \<Rightarrow> write_vars \<Rightarrow> fault + write_vars" where
  [fs_defs]: "ext_pointer b s =
     (if w_free_direct s > 0 then
        (let k = (POINTERS_PER_INODE - w_free_direct s) smod POINTERS_PER_INODE
         in if 0 \<le> k \<and> k < POINTERS_PER_INODE then
              Inr (s\<lparr>w_inode := (w_inode s)\<lparr>direct := (direct (w_inode s))[nat k := b]\<rparr>,
                     w_free_direct := w_free_direct s - 1\<rparr>)
            else Inl OutOfBounds)
      else if w_has_indirect s \<and> w_free_indirect s > 0 then
        (case disk_read (w_disk s) (indirect (w_inode s)) of
           Inl e \<Rightarrow> Inl e
         | Inr indirect_block \<Rightarrow>
             (let k = (POINTERS_PER_BLOCK - w_free_indirect s) smod POINTERS_PER_BLOCK
              in if 0 \<le> k \<and> k < POINTERS_PER_BLOCK then
                   (case disk_write (w_disk s) (indirect (w_inode s))
                           (pointer_store indirect_block (nat k) b) of
                      Inl e \<Rightarrow> Inl e
                    | Inr d' \<Rightarrow>
                        Inr (s\<lparr>w_indirect_block := pointer_store indirect_block (nat k) b,
                               w_disk := d', w_free_indirect := w_free_indirect s - 1\<rparr>))
                 else Inl OutOfBounds))
      else Inr s)"

text \<open>The extension loop \<open>for(b = ninodeblocks; b < nblocks; b++)\<close>.\<close>

fun write_ext ::
  "int \<Rightarrow> (nat \<Rightarrow> byte) \<Rightarrow> int \<Rightarrow> int list \<Rightarrow> write_vars \<Rightarrow> fault + write_vars" where
  "write_ext inumber src offset [] s = Inr s"
| "write_ext inumber src offset (b # bs) s =
     (if w_length s \<le> 0 then Inr s
      else if \<not> (0 \<le> b \<and> b < int (length (w_bm s))) then Inl OutOfBounds
      else if \<not> w_bm s ! nat b then write_ext inumber src offset bs s
      else if w_free_direct s = 0 \<and> \<not> w_has_indirect s then
        (case inode_save (w_disk s) inumber ((w_inode s)\<lparr>indirect := b\<rparr>) of
           Inl e \<Rightarrow> Inl e
         | Inr d' \<Rightarrow>
             write_ext inumber src offset bs
               (s\<lparr>w_bm := (w_bm s)[nat b := False],
                  w_inode := (w_inode s)\<lparr>indirect := b\<rparr>,
                  w_disk := d', w_has_indirect := True\<rparr>))
      else
        (case ext_chunk src offset (s\<lparr>w_bm := (w_bm s)[nat b := False]\<rparr>) of
           Inl e \<Rightarrow> Inl e
         | Inr s2 \<Rightarrow>
             (case ext_pointer b s2 of
                Inl e \<Rightarrow> Inl e
              | Inr s3 \<Rightarrow>
                  (case inode_save (w_disk s3) inumber (w_inode s3) of
                     Inl e \<Rightarrow> Inl e
                   | Inr d4 \<Rightarrow>
                       (case disk_write d4 b (w_block s3) of
                          Inl e \<Rightarrow> Inl e
                        | Inr d5 \<Rightarrow>
                            write_ext inumber src offset bs
                              (s3\<lparr>w_disk := d5, w_offset_ptr := w_offset_ptr s3 + 1\<rparr>))))))"

text \<open>
  \<open>fs_write\<close>. The locals \<open>block\<close> and \<open>indirect_block\<close> are uninitialised unions:
  \<open>block0\<close> and \<open>indirect0\<close> are what the stack held there. \<open>block\<close> is never read from the
  device, only copied into and written out. \<open>src\<close> is the memory at the pointer \<open>data\<close>.
\<close>

definition fs_write ::
  "block \<Rightarrow> block \<Rightarrow> fs_state \<Rightarrow> int \<Rightarrow> (nat \<Rightarrow> byte) \<Rightarrow> int \<Rightarrow> int \<Rightarrow> fault + (int \<times> fs_state)" where
  [fs_defs]: "fs_write block0 indirect0 st inumber src len offset =
     (if \<not> is_mounted st then Inr (0, st)
      else case is_valid_inumber (disk st) inumber of
        Inl e \<Rightarrow> Inl e
      | Inr False \<Rightarrow> Inr (0, st)
      | Inr True \<Rightarrow>
          if len \<le> 0 \<or> offset < 0 then Inr (0, st)
          else
            (case inode_load (disk st) inumber of
               Inl e \<Rightarrow> Inl e
             | Inr inode \<Rightarrow>
                 (let pointers_used = ceil_div (isize inode) DISK_BLOCK_SIZE;
                      has_indirect = (pointers_used > POINTERS_PER_INODE)
                  in case (if has_indirect then disk_read (disk st) (indirect inode)
                           else Inr indirect0) of
                       Inl e \<Rightarrow> Inl e
                     | Inr indirect_block \<Rightarrow>
                         (case write_over src offset (isize inode)
                                 \<lparr>w_length = len, w_offset_ptr = offset sdiv DISK_BLOCK_SIZE,
                                  w_counter = 0, w_inode = inode,
                                  w_has_indirect = has_indirect,
                                  w_free_direct = 0, w_free_indirect = POINTERS_PER_BLOCK,
                                  w_block = block0, w_indirect_block = indirect_block,
                                  w_disk = disk st, w_bm = free_block_bm st\<rparr> of
                            Inl e \<Rightarrow> Inl e
                          | Inr (True, s) \<Rightarrow> Inr (w_counter s, st\<lparr>disk := w_disk s\<rparr>)
                          | Inr (False, s) \<Rightarrow>
                              (case disk_read (w_disk s) 0 of
                                 Inl e \<Rightarrow> Inl e
                               | Inr super_block \<Rightarrow>
                                   (case write_ext inumber src offset
                                           [ninodeblocks (super_view super_block) ..
                                            nblocks (super_view super_block) - 1]
                                           (if pointers_used \<le> POINTERS_PER_INODE
                                            then s\<lparr>w_free_direct :=
                                                     POINTERS_PER_INODE - pointers_used\<rparr>
                                            else s\<lparr>w_has_indirect := True,
                                                   w_free_indirect := POINTERS_PER_BLOCK
                                                     - (pointers_used - POINTERS_PER_INODE)\<rparr>) of
                                      Inl e \<Rightarrow> Inl e
                                    | Inr s' \<Rightarrow>
                                        Inr (w_counter s',
                                             st\<lparr>disk := w_disk s',
                                                free_block_bm := w_bm s'\<rparr>)))))))"

section \<open>Concrete devices\<close>

text \<open>A device of 10 blocks holding zeros, before any call.\<close>

definition blank10 :: fs_state where
  [fs_defs]: "blank10 = \<lparr>disk = replicate 10 zero_block, is_mounted = False, free_block_bm = []\<rparr>"

text \<open>The superblock \<open>fs_format\<close> writes on a 10-block device (with zeros on the stack).\<close>

definition super10 :: block where
  [fs_defs]: "super10 = super_store zero_block
     \<lparr>magic = sint FS_MAGIC, nblocks = 10, ninodeblocks = 1, ninodes = 128\<rparr>"

definition formatted10 :: fs_state where
  [fs_defs]: "formatted10 =
     \<lparr>disk = super10 # replicate 9 zero_block, is_mounted = False, free_block_bm = []\<rparr>"

text \<open>
  A mounted 10-block volume: block 0 is \<open>super10\<close>, block 1 the inode table \<open>inodes\<close>,
  blocks 2 to 9 are \<open>blocks\<close>, and \<open>free\<close> is \<open>free_block_bm\<close> for blocks 2 to 9.
\<close>

definition volume10 :: "block \<Rightarrow> block list \<Rightarrow> bool list \<Rightarrow> fs_state" where
  [fs_defs]: "volume10 inodes blocks free =
     \<lparr>disk = super10 # inodes # blocks, is_mounted = True,
      free_block_bm = False # False # free\<rparr>"

definition mounted10 :: fs_state where
  [fs_defs]: "mounted10 = volume10 zero_block (replicate 8 zero_block) (replicate 8 True)"

text \<open>An inode table block that is zero except for inode 1.\<close>

definition slot1 :: "int \<Rightarrow> int \<Rightarrow> int list \<Rightarrow> int \<Rightarrow> block" where
  [fs_defs]: "slot1 v sz ds ind =
     inode_store zero_block 1 \<lparr>isvalid = v, isize = sz, direct = ds, indirect = ind\<rparr>"

text \<open>An inode table block that is zero except for inodes 1 and 2.\<close>

definition slot12 :: "fs_inode \<Rightarrow> fs_inode \<Rightarrow> block" where
  [fs_defs]: "slot12 i1 i2 = inode_store (inode_store zero_block 1 i1) 2 i2"

text \<open>The volume after \<open>fs_create\<close> returned 1: file 1 is empty.\<close>

definition created10 :: fs_state where
  [fs_defs]: "created10 =
     volume10 (slot1 1 0 [0, 0, 0, 0, 0] 0) (replicate 8 zero_block) (replicate 8 True)"

text \<open>The memory at a pointer to a buffer holding the bytes \<open>xs\<close> (zeros after them), and
  to a buffer holding the byte \<open>c\<close> throughout.\<close>

definition buffer :: "byte list \<Rightarrow> nat \<Rightarrow> byte" where
  [fs_defs]: "buffer xs = (\<lambda>i. if i < length xs then xs ! i else 0)"

definition fill :: "byte \<Rightarrow> nat \<Rightarrow> byte" where
  [fs_defs]: "fill c = (\<lambda>i. c)"

text \<open>File 1 after "A" was written at offset 0.\<close>

definition file_A :: fs_state where
  [fs_defs]: "file_A =
     volume10 (slot1 1 1 [2, 0, 0, 0, 0] 0)
       (memcpy_block zero_block 0 (buffer [0x41]) 0 1 # replicate 7 zero_block)
       (False # replicate 7 True)"

text \<open>File 1 after "AB" was written at offset 0, and after "CD" was then written at offset 2.\<close>

definition file_AB :: fs_state where
  [fs_defs]: "file_AB =
     volume10 (slot1 1 2 [2, 0, 0, 0, 0] 0)
       (memcpy_block zero_block 0 (buffer [0x41, 0x42]) 0 2 # replicate 7 zero_block)
       (False # replicate 7 True)"

definition file_AB_CD :: fs_state where
  [fs_defs]: "file_AB_CD =
     volume10 (slot1 1 4 [2, 3, 0, 0, 0] 0)
       (memcpy_block zero_block 0 (buffer [0x41, 0x42]) 0 2
        # memcpy_block zero_block 2 (buffer [0x43, 0x44]) 0 2 # replicate 6 zero_block)
       (False # False # replicate 6 True)"

text \<open>File 1 after "ABCDEF" was written at offset 0, and after it was then deleted.\<close>

definition abcdef :: "nat \<Rightarrow> byte" where
  [fs_defs]: "abcdef = buffer [0x41, 0x42, 0x43, 0x44, 0x45, 0x46]"

definition file6 :: fs_state where
  [fs_defs]: "file6 =
     volume10 (slot1 1 6 [2, 0, 0, 0, 0] 0)
       (memcpy_block zero_block 0 abcdef 0 6 # replicate 7 zero_block)
       (False # replicate 7 True)"

definition file6_deleted :: fs_state where
  [fs_defs]: "file6_deleted =
     volume10 (slot1 0 (- 4090) [2, 0, 0, 0, 0] 0)
       (memcpy_block zero_block 0 abcdef 0 6 # replicate 7 zero_block)
       (replicate 8 True)"

text \<open>
  The block buffer of \<open>fs_write\<close> after each of five full chunks of a buffer of "A"s was
  copied into it, and after one more byte.
\<close>

definition chunk1 :: block where
  [fs_defs]: "chunk1 = memcpy_block zero_block 0 (fill 0x41) 0 4096"

definition chunk2 :: block where
  [fs_defs]: "chunk2 = memcpy_block chunk1 0 (fill 0x41) 4096 4096"

definition chunk3 :: block where
  [fs_defs]: "chunk3 = memcpy_block chunk2 0 (fill 0x41) 8192 4096"

definition chunk4 :: block where
  [fs_defs]: "chunk4 = memcpy_block chunk3 0 (fill 0x41) 12288 4096"

definition chunk5 :: block where
  [fs_defs]: "chunk5 = memcpy_block chunk4 0 (fill 0x41) 16384 4096"

definition chunk6 :: block where
  [fs_defs]: "chunk6 = memcpy_block chunk5 0 (fill 0x41) 20480 1"

text \<open>File 1 after 20481 bytes were written at offset 0: five direct blocks 2 to 6, the
  indirect block 7 and the data block 8; then after it was deleted; then after \<open>fs_create\<close>
  returned 1 again.\<close>

definition big_blocks :: "block list" where
  [fs_defs]: "big_blocks =
     [chunk1, chunk2, chunk3, chunk4, chunk5, pointer_store zero_block 0 8, chunk6, zero_block]"

definition big_file :: fs_state where
  [fs_defs]: "big_file =
     volume10 (slot1 1 20481 [2, 3, 4, 5, 6] 7) big_blocks
       [False, False, False, False, False, False, False, True]"

definition big_deleted :: fs_state where
  [fs_defs]: "big_deleted =
     volume10 (slot1 0 (- 4095) [2, 3, 4, 5, 6] 7) big_blocks (replicate 8 True)"

definition big_recreated :: fs_state where
  [fs_defs]: "big_recreated =
     volume10 (slot1 1 0 [0, 0, 0, 0, 0] 7) big_blocks (replicate 8 True)"

text \<open>
  Two files. File 1 receives 4096 "A"s (block 2), file 2 receives 4096 "B"s (block 3),
  file 1 is deleted, and file 2 receives 4096 "C"s at offset 4096 (block 2 again).
\<close>

definition empty_inode :: fs_inode where
  [fs_defs]: "empty_inode = \<lparr>isvalid = 1, isize = 0, direct = [0, 0, 0, 0, 0], indirect = 0\<rparr>"

definition full_of :: "byte \<Rightarrow> block" where
  [fs_defs]: "full_of c = memcpy_block zero_block 0 (fill c) 0 4096"

definition two_created :: fs_state where
  [fs_defs]: "two_created =
     volume10 (slot12 empty_inode empty_inode) (replicate 8 zero_block) (replicate 8 True)"

definition two_A :: fs_state where
  [fs_defs]: "two_A =
     volume10 (slot12 \<lparr>isvalid = 1, isize = 4096, direct = [2, 0, 0, 0, 0], indirect = 0\<rparr>
                      empty_inode)
       (full_of 0x41 # replicate 7 zero_block) (False # replicate 7 True)"

definition two_AB :: fs_state where
  [fs_defs]: "two_AB =
     volume10 (slot12 \<lparr>isvalid = 1, isize = 4096, direct = [2, 0, 0, 0, 0], indirect = 0\<rparr>
                      \<lparr>isvalid = 1, isize = 4096, direct = [3, 0, 0, 0, 0], indirect = 0\<rparr>)
       (full_of 0x41 # full_of 0x42 # replicate 6 zero_block)
       (False # False # replicate 6 True)"

definition two_B :: fs_state where
  [fs_defs]: "two_B =
     volume10 (slot12 \<lparr>isvalid = 0, isize = 0, direct = [2, 0, 0, 0, 0], indirect = 0\<rparr>
                      \<lparr>isvalid = 1, isize = 4096, direct = [3, 0, 0, 0, 0], indirect = 0\<rparr>)
       (full_of 0x41 # full_of 0x42 # replicate 6 zero_block)
       (True # False # replicate 6 True)"

definition two_BC :: fs_state where
  [fs_defs]: "two_BC =
     volume10 (slot12 \<lparr>isvalid = 0, isize = 0, direct = [2, 0, 0, 0, 0], indirect = 0\<rparr>
                      \<lparr>isvalid = 1, isize = 8192, direct = [3, 2, 0, 0, 0], indirect = 0\<rparr>)
       (full_of 0x43 # full_of 0x42 # replicate 6 zero_block)
       (False # False # replicate 6 True)"

text \<open>
  A 12-block device: two inode table blocks, data blocks 3 to 11. \<open>volume12\<close> is a mounted
  volume with inode table \<open>inodes\<close> in block 1 (block 2 is zero), blocks 3 to 11 \<open>blocks\<close>, and
  \<open>free\<close> is \<open>free_block_bm\<close> for blocks 3 to 11.
\<close>

definition blank12 :: fs_state where
  [fs_defs]: "blank12 = \<lparr>disk = replicate 12 zero_block, is_mounted = False, free_block_bm = []\<rparr>"

definition super12 :: block where
  [fs_defs]: "super12 = super_store zero_block
     \<lparr>magic = sint FS_MAGIC, nblocks = 12, ninodeblocks = 2, ninodes = 256\<rparr>"

definition formatted12 :: fs_state where
  [fs_defs]: "formatted12 =
     \<lparr>disk = super12 # replicate 11 zero_block, is_mounted = False, free_block_bm = []\<rparr>"

definition volume12 :: "block \<Rightarrow> block list \<Rightarrow> bool list \<Rightarrow> fs_state" where
  [fs_defs]: "volume12 inodes blocks free =
     \<lparr>disk = super12 # inodes # zero_block # blocks, is_mounted = True,
      free_block_bm = False # False # False # free\<rparr>"

definition mounted12 :: fs_state where
  [fs_defs]: "mounted12 = volume12 zero_block (replicate 9 zero_block) (replicate 9 True)"

definition created12 :: fs_state where
  [fs_defs]: "created12 =
     volume12 (slot1 1 0 [0, 0, 0, 0, 0] 0) (replicate 9 zero_block) (replicate 9 True)"

text \<open>
  File 1 of the 12-block volume after 20479 "A"s were written at offset 0 (direct blocks 3
  to 7), after one "B" was then written at offset 20479, and after one "C" was then written
  at offset 20480.
\<close>

definition chunk5_short :: block where
  [fs_defs]: "chunk5_short = memcpy_block chunk4 0 (fill 0x41) 16384 4095"

definition size_20479 :: fs_state where
  [fs_defs]: "size_20479 =
     volume12 (slot1 1 20479 [3, 4, 5, 6, 7] 0)
       ([chunk1, chunk2, chunk3, chunk4, chunk5_short] @ replicate 4 zero_block)
       (replicate 5 False @ replicate 4 True)"

definition size_20480 :: fs_state where
  [fs_defs]: "size_20480 =
     volume12 (slot1 1 20480 [3, 4, 5, 6, 7] 8)
       ([chunk1, chunk2, chunk3, chunk4, chunk5_short,
         pointer_store zero_block 0 9, memcpy_block zero_block 4095 (fill 0x42) 0 1]
        @ replicate 2 zero_block)
       (replicate 7 False @ replicate 2 True)"

definition size_20481 :: fs_state where
  [fs_defs]: "size_20481 =
     volume12 (slot1 1 20481 [3, 4, 5, 6, 7] 10)
       [chunk1, chunk2, chunk3, chunk4, chunk5_short,
        pointer_store zero_block 0 9, memcpy_block zero_block 4095 (fill 0x42) 0 1,
        pointer_store zero_block 0 11, memcpy_block zero_block 0 (fill 0x43) 0 1]
       (replicate 9 False)"

section \<open>The invariant of unused inode slots\<close>

text \<open>
  The data model's invariant on unused inode slots, in the spec's words: "unused inode
  slots have \<open>valid = false\<close>, \<open>size = 0\<close>, all pointers 0". \<open>slot_clear\<close> is the invariant for
  one inode record, \<open>unused_slots_clear\<close> for every slot of the inode table that block 0
  describes.
\<close>

definition slot_clear :: "fs_inode \<Rightarrow> bool" where
  "slot_clear inode =
     (isvalid inode = 0 \<longrightarrow> isize inode = 0 \<and> direct inode = [0, 0, 0, 0, 0] \<and> indirect inode = 0)"

definition unused_slots_clear :: "block list \<Rightarrow> bool" where
  "unused_slots_clear d =
     (\<forall>j inode. 0 \<le> j \<and> j < ninodes (super_view (d ! 0)) \<and> inode_load d j = Inr inode
        \<longrightarrow> slot_clear inode)"

section \<open>The layout codec\<close>

lemma unat_byte_less: "unat (w :: 8 word) < 256"
  using unsigned_less [of w, where 'a = nat] by simp

lemma unat_word_of_bytes:
  "unat (word_of_nat (unat (a :: 8 word) + 256 * unat (b :: 8 word) + 65536 * unat (c :: 8 word)
      + 16777216 * unat (e :: 8 word)) :: 32 word) =
   unat a + 256 * unat b + 65536 * unat c + 16777216 * unat e"
  using unat_byte_less [of a] unat_byte_less [of b] unat_byte_less [of c] unat_byte_less [of e]
  by (simp add: unat_of_nat take_bit_nat_eq_self del: of_nat_add of_nat_mult)

lemma byte_of_nat_low: "(word_of_nat (unat (w :: 8 word) + 256 * n) :: 8 word) = w"
proof -
  have "unat (word_of_nat (unat w + 256 * n) :: 8 word) = unat w"
    using unat_byte_less [of w] by (simp add: unat_of_nat del: of_nat_add of_nat_mult)
  then show ?thesis by (simp only: word_unat_eq_iff)
qed

text \<open>Reading a byte of a block built from bytes gives that byte back.\<close>

lemma data_view_store: "data_view (data_store f) i = f i"
proof -
  define q where "q = i div 4"
  define a where "a = f (4 * q)"
  define b where "b = f (4 * q + 1)"
  define c where "c = f (4 * q + 2)"
  define e where "e = f (4 * q + 3)"
  have bounds: "unat a < 256" "unat b < 256" "unat c < 256" "unat e < 256"
    by (simp_all add: unat_byte_less)
  have dv: "data_view (data_store f) i =
     word_of_nat ((unat a + 256 * unat b + 65536 * unat c + 16777216 * unat e)
                  div 256 ^ (i mod 4))"
    unfolding data_view_def data_store_def q_def [symmetric]
    by (simp only: unat_word_of_bytes a_def b_def c_def e_def)
  have i: "i = 4 * q + i mod 4" by (simp add: q_def)
  have cases: "i mod 4 = 0 \<or> i mod 4 = 1 \<or> i mod 4 = 2 \<or> i mod 4 = 3" by arith
  have d0: "(unat a + 256 * unat b + 65536 * unat c + 16777216 * unat e) div 256 ^ 0
            = unat a + 256 * (unat b + 256 * unat c + 65536 * unat e)" by simp
  have d1: "(unat a + 256 * unat b + 65536 * unat c + 16777216 * unat e) div 256 ^ 1
            = unat b + 256 * (unat c + 256 * unat e)" using bounds by simp
  have d2: "(unat a + 256 * unat b + 65536 * unat c + 16777216 * unat e) div 256 ^ 2
            = unat c + 256 * unat e" using bounds by simp
  have d3: "(unat a + 256 * unat b + 65536 * unat c + 16777216 * unat e) div 256 ^ 3
            = unat e + 256 * 0" using bounds by simp
  from cases show ?thesis
  proof (elim disjE)
    assume m: "i mod 4 = 0"
    then have "f i = a" using i by (simp add: a_def)
    then show ?thesis unfolding dv m d0 by (simp only: byte_of_nat_low)
  next
    assume m: "i mod 4 = 1"
    then have "f i = b" using i by (simp add: b_def)
    then show ?thesis unfolding dv m d1 by (simp only: byte_of_nat_low)
  next
    assume m: "i mod 4 = 2"
    then have "f i = c" using i by (simp add: c_def)
    then show ?thesis unfolding dv m d2 by (simp only: byte_of_nat_low)
  next
    assume m: "i mod 4 = 3"
    then have "f i = e" using i by (simp add: e_def)
    then show ?thesis unfolding dv m d3 by (simp only: byte_of_nat_low)
  qed
qed

text \<open>What each view reads from a block that a store built.\<close>

lemma data_view_memcpy [fs_defs]:
  "data_view (memcpy_block b block_offset src write_counter n) i =
     (if block_offset \<le> i \<and> i < block_offset + n
      then src (write_counter + (i - block_offset)) else data_view b i)"
  by (simp add: memcpy_block_def data_view_store)

lemma data_view_zero [fs_defs]: "data_view zero_block i = 0"
  by (simp add: data_view_def zero_block_def)

lemma pointer_view_zero [fs_defs]: "pointer_view zero_block j = 0"
  by (simp add: pointer_view_def zero_block_def)

lemma pointer_view_store [fs_defs]:
  "pointer_view (pointer_store b j v) i =
     (if i = j then sint (word_of_int v :: 32 word) else pointer_view b i)"
  by (simp add: pointer_view_def pointer_store_def)

lemma super_view_zero [fs_defs]:
  "super_view zero_block = \<lparr>magic = 0, nblocks = 0, ninodeblocks = 0, ninodes = 0\<rparr>"
  by (simp add: super_view_def zero_block_def)

lemma super_view_store [fs_defs]:
  "super_view (super_store b s) =
     \<lparr>magic = sint (word_of_int (magic s) :: 32 word),
      nblocks = sint (word_of_int (nblocks s) :: 32 word),
      ninodeblocks = sint (word_of_int (ninodeblocks s) :: 32 word),
      ninodes = sint (word_of_int (ninodes s) :: 32 word)\<rparr>"
  by (simp add: super_view_def super_store_def)

lemma inode_view_zero [fs_defs]:
  "inode_view zero_block k = \<lparr>isvalid = 0, isize = 0, direct = [0, 0, 0, 0, 0], indirect = 0\<rparr>"
  by (simp add: inode_view_def zero_block_def)

lemma inode_view_store_same:
  "inode_view (inode_store b k i) k =
     \<lparr>isvalid = sint (word_of_int (isvalid i) :: 32 word),
      isize = sint (word_of_int (isize i) :: 32 word),
      direct = [sint (word_of_int (direct i ! 0) :: 32 word),
                sint (word_of_int (direct i ! 1) :: 32 word),
                sint (word_of_int (direct i ! 2) :: 32 word),
                sint (word_of_int (direct i ! 3) :: 32 word),
                sint (word_of_int (direct i ! 4) :: 32 word)],
      indirect = sint (word_of_int (indirect i) :: 32 word)\<rparr>"
  by (simp add: inode_view_def inode_store_def)

lemma inode_view_store_other:
  "k' \<noteq> k \<Longrightarrow> inode_view (inode_store b k i) k' = inode_view b k'"
  by (simp add: inode_view_def inode_store_def)

lemma inode_view_store [fs_defs]:
  "inode_view (inode_store b k i) k' =
     (if k' = k then
        \<lparr>isvalid = sint (word_of_int (isvalid i) :: 32 word),
         isize = sint (word_of_int (isize i) :: 32 word),
         direct = [sint (word_of_int (direct i ! 0) :: 32 word),
                   sint (word_of_int (direct i ! 1) :: 32 word),
                   sint (word_of_int (direct i ! 2) :: 32 word),
                   sint (word_of_int (direct i ! 3) :: 32 word),
                   sint (word_of_int (direct i ! 4) :: 32 word)],
         indirect = sint (word_of_int (indirect i) :: 32 word)\<rparr>
      else inode_view b k')"
  by (simp add: inode_view_store_same inode_view_store_other)

text \<open>Storing an inode twice in one slot keeps the second; stores to two slots commute.\<close>

lemma inode_store_twice [fs_defs]: "inode_store (inode_store b k i) k i' = inode_store b k i'"
  by (rule ext) (simp add: inode_store_def)

lemma inode_store_swap:
  "k' < k \<Longrightarrow> inode_store (inode_store b k i) k' i' = inode_store (inode_store b k' i') k i"
  by (rule ext) (simp add: inode_store_def)

lemma inode_store_swap_1_2 [fs_defs]:
  "inode_store (inode_store b 2 i) (Suc 0) i' = inode_store (inode_store b (Suc 0) i') 2 i"
  by (rule inode_store_swap) simp

lemma replicate_numeral_Cons [fs_defs]:
  "replicate (numeral n) x = x # replicate (pred_numeral n) x"
  by (simp add: numeral_eq_Suc)

lemmas fs_eval = fs_defs upto.simps signed_divide_int_def signed_modulo_int_def

section \<open>Reaching the concrete devices\<close>

lemma reach_formatted10: "fs_format zero_block blank10 = Inr (1, formatted10)"
  by (simp add: fs_eval)

lemma reach_mounted10: "fs_mount formatted10 = Inr (1, mounted10)"
  by (simp add: fs_eval)

lemma reach_created10: "fs_create mounted10 = Inr (1, created10)"
  by (simp add: fs_eval)

lemma reach_file_AB:
  "fs_write zero_block zero_block created10 1 (buffer [0x41, 0x42]) 2 0 = Inr (2, file_AB)"
  by (simp add: fs_eval)

lemma reach_file6:
  "fs_write zero_block zero_block created10 1 abcdef 6 0 = Inr (6, file6)"
  by (simp add: fs_eval)

lemma reach_big_file:
  "fs_write zero_block zero_block created10 1 (fill 0x41) 20481 0 = Inr (20481, big_file)"
  by (simp add: fs_eval)

lemma reach_big_deleted: "fs_delete big_file 1 = Inr (1, big_deleted)"
  by (simp add: fs_eval)

lemma reach_two_created: "fs_create created10 = Inr (2, two_created)"
  by (simp add: fs_eval)

lemma reach_two_A:
  "fs_write zero_block zero_block two_created 1 (fill 0x41) 4096 0 = Inr (4096, two_A)"
  by (simp add: fs_eval)

lemma reach_two_AB:
  "fs_write zero_block zero_block two_A 2 (fill 0x42) 4096 0 = Inr (4096, two_AB)"
  by (simp add: fs_eval)

lemma reach_two_B: "fs_delete two_AB 1 = Inr (1, two_B)"
  by (simp add: fs_eval)

lemma reach_two_BC:
  "fs_write zero_block zero_block two_B 2 (fill 0x43) 4096 4096 = Inr (4096, two_BC)"
  by (simp add: fs_eval)

lemma reach_formatted12: "fs_format zero_block blank12 = Inr (1, formatted12)"
  by (simp add: fs_eval)

lemma reach_mounted12: "fs_mount formatted12 = Inr (1, mounted12)"
  by (simp add: fs_eval)

lemma reach_created12: "fs_create mounted12 = Inr (1, created12)"
  by (simp add: fs_eval)

lemma reach_size_20479:
  "fs_write zero_block zero_block created12 1 (fill 0x41) 20479 0 = Inr (20479, size_20479)"
  by (simp add: fs_eval)

section \<open>Facts about the low level functions\<close>

text \<open>The integer formula of \<open>ceil_div\<close> is the ceiling of the quotient.\<close>

lemma ceil_div_ceiling: "ceil_div a b = \<lceil>real_of_int a / real_of_int b\<rceil>"
  by (simp add: ceil_div_def ceiling_divide_eq_div)

lemma wrap32_id: "- 2147483648 \<le> x \<Longrightarrow> x < 2147483648 \<Longrightarrow> sint (word_of_int x :: 32 word) = x"
  by (simp add: sint_sbintrunc' signed_take_bit_int_eq_self)

lemma format_erase_result:
  "(\<forall>k \<in> set ks. 0 \<le> k \<and> k + 1 < int (length d)) \<Longrightarrow>
   \<exists>d'. format_erase ks d = Inr d' \<and> length d' = length d
     \<and> (\<forall>j < length d. d' ! j = (if int j - 1 \<in> set ks then zero_block else d ! j))"
proof (induction ks arbitrary: d)
  case Nil
  then show ?case by simp
next
  case (Cons k ks)
  let ?d1 = "d[nat (k + 1) := zero_block]"
  from Cons.prems have k: "0 \<le> k" "k + 1 < int (length d)" by auto
  then have w: "disk_write d (k + 1) zero_block = Inr ?d1"
    by (simp add: disk_write_def disk_size_def)
  from Cons.prems have "\<forall>k \<in> set ks. 0 \<le> k \<and> k + 1 < int (length ?d1)" by simp
  from Cons.IH [OF this] obtain d' where d':
    "format_erase ks ?d1 = Inr d'" "length d' = length d"
    "\<forall>j < length d. d' ! j = (if int j - 1 \<in> set ks then zero_block else ?d1 ! j)"
    by auto
  have "\<forall>j < length d. d' ! j = (if int j - 1 \<in> set (k # ks) then zero_block else d ! j)"
  proof (intro allI impI)
    fix j assume j: "j < length d"
    show "d' ! j = (if int j - 1 \<in> set (k # ks) then zero_block else d ! j)"
    proof (cases "j = nat (k + 1)")
      case True
      with k j d'(3) show ?thesis by (auto simp: nth_list_update)
    next
      case False
      with k have "int j - 1 \<noteq> k" by auto
      with False j d'(3) show ?thesis by (auto simp: nth_list_update)
    qed
  qed
  with w d'(1,2) show ?case by simp
qed


lemma ceil_div_10_bounds:
  assumes "0 < n" "n \<le> 167772150"
  shows "0 < ceil_div n 10" "ceil_div n 10 \<le> 16777215"
  using assms unfolding ceil_div_def by linarith+

text \<open>
  For inumbers from 0 on, C's truncating \<open>/\<close> and \<open>%\<close> are \<open>div\<close> and \<open>mod\<close>; saving an inode
  changes that slot only, and what is read back is what was loaded, with the two fields that
  \<open>fs_delete\<close> assigns wrapped to 32 bits.
\<close>

lemma sdiv_nonneg: "0 \<le> a \<Longrightarrow> a sdiv (128::int) = a div 128"
  by (simp add: signed_divide_int_def sgn_if)

lemma smod_nonneg: "0 \<le> a \<Longrightarrow> a smod (128::int) = a mod 128"
  by (simp add: signed_modulo_int_def sgn_if)

lemma inode_view_restore:
  "inode_view (inode_store b k ((inode_view b k)\<lparr>isize := sz, isvalid := v\<rparr>)) k
   = (inode_view b k)\<lparr>isvalid := sint (word_of_int v :: 32 word),
                        isize := sint (word_of_int sz :: 32 word)\<rparr>"
  by (simp add: inode_view_store_same) (simp add: inode_view_def)

lemma inode_save_load_same:
  assumes "inode_load d i = Inr inode"
    and "inode_save d i (inode\<lparr>isize := sz, isvalid := v\<rparr>) = Inr d'"
  shows "inode_load d' i = Inr (inode\<lparr>isvalid := sint (word_of_int v :: 32 word),
                                       isize := sint (word_of_int sz :: 32 word)\<rparr>)"
  using assms
  by (auto simp: inode_load_def inode_save_def disk_read_def disk_write_def disk_size_def
        Let_def inode_view_restore split: if_splits)

lemma inode_save_load_other:
  assumes "inode_save d i v = Inr d'" and "0 \<le> i" and "0 \<le> j" and "j \<noteq> i"
  shows "inode_load d' j = inode_load d j"
proof -
  let ?bi = "1 + i div 128" and ?bj = "1 + j div 128"
  from assms(1,2) have rng: "?bi < int (length d)"
    and d': "d' = d[nat ?bi := inode_store (d ! nat ?bi) (nat (i mod 128)) v]"
    by (auto simp: inode_save_def disk_read_def disk_write_def disk_size_def Let_def
          INODES_PER_BLOCK_def sdiv_nonneg smod_nonneg split: if_splits)
  show ?thesis
  proof (cases "?bj = ?bi")
    case True
    with assms(2,3,4) have "j mod 128 \<noteq> i mod 128"
      by (metis add_left_cancel div_mult_mod_eq)
    then have ne: "nat (j mod 128) \<noteq> nat (i mod 128)" by simp
    from True rng assms(2,3) show ?thesis
      by (simp add: inode_load_def disk_read_def disk_size_def d' Let_def INODES_PER_BLOCK_def
            sdiv_nonneg smod_nonneg inode_view_store_other [OF ne])
  next
    case False
    with assms(2,3) have "nat ?bj \<noteq> nat ?bi" by simp
    with assms(2,3) show ?thesis
      by (simp add: inode_load_def disk_read_def disk_size_def d' Let_def INODES_PER_BLOCK_def
            sdiv_nonneg smod_nonneg)
  qed
qed

text \<open>
  \<open>fs_create\<close> changes the device by at most one \<open>inode_save\<close> of a slot it found invalid and
  made valid, so it preserves the invariant of unused slots.
\<close>

lemma create_scan_effect:
  assumes "create_scan ks d = Inr (r, d')" and "\<forall>k \<in> set ks. 0 < k"
  shows "d' = d \<or> (\<exists>inode. 0 < r \<and> inode_load d r = Inr inode
           \<and> inode_save d r (inode\<lparr>isvalid := 1, isize := 0,
                 direct := replicate (nat POINTERS_PER_INODE) 0\<rparr>) = Inr d')"
  using assms
proof (induction ks)
  case Nil
  then show ?case by simp
next
  case (Cons k ks)
  then show ?case
    by (auto split: sum.splits if_splits)
qed

lemma inode_save_frame:
  assumes "inode_save d i v = Inr d'" and "0 \<le> i"
  shows "d' ! 0 = d ! 0" and "length d' = length d"
  using assms
  by (auto simp: inode_save_def disk_read_def disk_write_def disk_size_def Let_def
        INODES_PER_BLOCK_def sdiv_nonneg smod_nonneg split: if_splits)

lemma inode_save_load_valid:
  assumes "inode_save d i v = Inr d'"
  shows "\<exists>inode'. inode_load d' i = Inr inode'
           \<and> isvalid inode' = sint (word_of_int (isvalid v) :: 32 word)"
  using assms
  by (auto simp: inode_load_def inode_save_def disk_read_def disk_write_def disk_size_def
        Let_def inode_view_store_same split: if_splits)

lemma create_preserves_unused_slots_clear:
  assumes cr: "fs_create st = Inr (r, st')" and inv: "unused_slots_clear (disk st)"
  shows "unused_slots_clear (disk st')"
proof (cases "disk st' = disk st")
  case True
  with inv show ?thesis by simp
next
  case False
  with cr obtain n :: int where sc: "create_scan [1 .. n - 1] (disk st) = Inr (r, disk st')"
    by (auto simp: fs_create_def split: if_splits sum.splits prod.splits)
  have "\<forall>k \<in> set [1 .. n - 1]. 0 < k" by auto
  from create_scan_effect [OF sc this] False obtain inode where
    r: "0 < r" and sv: "inode_save (disk st) r (inode\<lparr>isvalid := 1, isize := 0,
          direct := replicate (nat POINTERS_PER_INODE) 0\<rparr>) = Inr (disk st')"
    by auto
  from inode_save_frame [OF sv] r have b0: "disk st' ! 0 = disk st ! 0" by simp
  from inode_save_load_valid [OF sv] obtain new where
    new: "inode_load (disk st') r = Inr new" "isvalid new = 1"
    by auto
  show ?thesis
    unfolding unused_slots_clear_def
  proof (intro allI impI)
    fix j inode
    assume a: "0 \<le> j \<and> j < ninodes (super_view (disk st' ! 0)) \<and> inode_load (disk st') j = Inr inode"
    show "slot_clear inode"
    proof (cases "j = r")
      case True
      with a new show ?thesis by (simp add: slot_clear_def)
    next
      case False
      with inode_save_load_other [OF sv _ _ False] a r
      have "inode_load (disk st) j = Inr inode" by simp
      with a b0 inv show ?thesis
        unfolding unused_slots_clear_def by auto
    qed
  qed
qed

lemma unused_slots_clear_mounted10: "unused_slots_clear (disk mounted10)"
  unfolding unused_slots_clear_def
proof (intro allI impI)
  fix j inode
  assume "0 \<le> j \<and> j < ninodes (super_view (disk mounted10 ! 0)) \<and> inode_load (disk mounted10) j = Inr inode"
  then have j: "0 \<le> j" "j < 128" and ld: "inode_load (disk mounted10) j = Inr inode"
    by (simp_all add: fs_defs)
  from j have "j div 128 = 0" by simp
  with j ld have "inode = inode_view zero_block (nat (j mod 128))"
    by (simp add: inode_load_def disk_read_def disk_size_def Let_def INODES_PER_BLOCK_def
          sdiv_nonneg smod_nonneg mounted10_def volume10_def)
  then show "slot_clear inode"
    by (simp add: slot_clear_def inode_view_zero)
qed


lemma unused_slots_clear_one_file:
  "unused_slots_clear (disk (volume10 (slot1 1 sz ds ind) blocks free))"
  unfolding unused_slots_clear_def
proof (intro allI impI)
  fix j inode
  let ?d = "disk (volume10 (slot1 1 sz ds ind) blocks free)"
  assume "0 \<le> j \<and> j < ninodes (super_view (?d ! 0)) \<and> inode_load ?d j = Inr inode"
  then have j: "0 \<le> j" "j < 128" and ld: "inode_load ?d j = Inr inode"
    by (simp_all add: fs_defs)
  from j have "j div 128 = 0" by simp
  with j ld have "inode = inode_view (slot1 1 sz ds ind) (nat (j mod 128))"
    by (simp add: inode_load_def disk_read_def disk_size_def Let_def INODES_PER_BLOCK_def
          sdiv_nonneg smod_nonneg volume10_def)
  then show "slot_clear inode"
    by (simp add: slot_clear_def slot1_def inode_view_store inode_view_zero)
qed

section \<open>Write followed by read\<close>

text \<open>
  C1. Claim: a successful write of a byte sequence at \<open>[offset, offset + length)\<close> followed by
  a read of the same range returns exactly the bytes that were written. On the code this
  fails. File 1 of a freshly formatted and mounted 10-block device holds "AB"
  (\<open>file_AB\<close>). Writing "CD" at offset 2 returns 2 and makes the size 4, but the two bytes
  go to bytes 2 and 3 of a new block (block 3) instead of the file's first block (block 2).
  Reading 2 bytes at offset 2 then returns 4 bytes, all from block 2, none of them "C" or "D".
\<close>

theorem write_read_roundtrip_fails:
  "fs_write zero_block zero_block file_AB 1 (buffer [0x43, 0x44]) 2 2 = Inr (2, file_AB_CD)
   \<and> fs_getsize file_AB_CD 1 = Inr 4
   \<and> fs_read file_AB_CD 1 2 2 = Inr (4, [0, 0, 0, 0])
   \<and> map (data_view (disk file_AB_CD ! 3)) [2, 3] = [0x43, 0x44]"
  by (simp add: fs_eval)

section \<open>The byte count of read\<close>

text \<open>
  C3. Claim: the byte count a successful read returns is at most the requested length. On
  the code this fails: when the block that holds \<open>offset\<close> is the file's last, partly
  filled block, \<open>fs_read\<close> copies the whole remaining size, whatever \<open>length\<close> is. File 1
  holds "ABCDEF" (\<open>file6\<close>); reading 2 bytes at offset 0 returns 6 and copies 6 bytes to
  the caller's buffer.
\<close>

theorem read_returns_more_than_length:
  "fs_getsize file6 1 = Inr 6
   \<and> fs_read file6 1 2 0 = Inr (6, [0x41, 0x42, 0x43, 0x44, 0x45, 0x46])"
  by (simp add: fs_eval)

section \<open>Create\<close>

text \<open>
  What holds of \<open>fs_create\<close> on a mounted volume: it returns the smallest inumber from 1 on
  whose slot is invalid, and that slot then has \<open>isvalid = 1\<close>, \<open>size = 0\<close> and the five direct
  pointers 0, with the indirect pointer it had; when every slot from 1 to \<open>ninodes - 1\<close> is
  valid it returns 0 and changes nothing.
\<close>

lemma inode_save_after_load:
  assumes "inode_load d i = Inr inode"
  shows "\<exists>d'. inode_save d i v = Inr d'"
  using assms
  by (auto simp: inode_load_def inode_save_def disk_read_def disk_write_def Let_def
        split: if_splits)

lemma inode_view_recreate:
  "inode_view (inode_store b k ((inode_view b k)\<lparr>isvalid := 1, isize := 0,
       direct := replicate (nat POINTERS_PER_INODE) 0\<rparr>)) k
   = (inode_view b k)\<lparr>isvalid := 1, isize := 0, direct := [0, 0, 0, 0, 0]\<rparr>"
  by (simp add: inode_view_store_same POINTERS_PER_INODE_def) (simp add: inode_view_def)

lemma inode_save_load_created:
  assumes "inode_load d i = Inr inode"
    and "inode_save d i (inode\<lparr>isvalid := 1, isize := 0,
           direct := replicate (nat POINTERS_PER_INODE) 0\<rparr>) = Inr d'"
  shows "inode_load d' i = Inr (inode\<lparr>isvalid := 1, isize := 0, direct := [0, 0, 0, 0, 0]\<rparr>)"
  using assms
  by (auto simp: inode_load_def inode_save_def disk_read_def disk_write_def disk_size_def
        Let_def inode_view_recreate split: if_splits)

lemma create_scan_all_valid:
  assumes "\<forall>k \<in> set ks. \<exists>inode. inode_load d k = Inr inode \<and> isvalid inode \<noteq> 0"
  shows "create_scan ks d = Inr (0, d)"
  using assms by (induction ks) auto

lemma create_scan_first_invalid:
  assumes "\<forall>k \<in> set ks. \<exists>inode. inode_load d k = Inr inode \<and> isvalid inode \<noteq> 0"
    and "inode_load d m = Inr inode" and "isvalid inode = 0"
  shows "create_scan (ks @ m # rest) d =
     (case inode_save d m (inode\<lparr>isvalid := 1, isize := 0,
              direct := replicate (nat POINTERS_PER_INODE) 0\<rparr>) of
        Inl e \<Rightarrow> Inl e | Inr d' \<Rightarrow> Inr (m, d'))"
  using assms by (induction ks) auto

lemma is_valid_inumber_load:
  assumes "disk_read d 0 = Inr sb" and "1 \<le> j" and "j < ninodes (super_view sb)"
  shows "is_valid_inumber d j = Inr True
         \<longleftrightarrow> (\<exists>inode. inode_load d j = Inr inode \<and> isvalid inode \<noteq> 0)"
  using assms by (auto simp: is_valid_inumber_def split: sum.splits)

lemma fs_create_first_invalid:
  assumes mounted: "is_mounted st"
    and sb: "disk_read (disk st) 0 = Inr sb"
    and m: "1 \<le> m" "m < ninodes (super_view sb)"
    and before: "\<forall>j. 1 \<le> j \<and> j < m \<longrightarrow> is_valid_inumber (disk st) j = Inr True"
    and slot: "inode_load (disk st) m = Inr inode" "isvalid inode = 0"
  shows "\<exists>st'. fs_create st = Inr (m, st')
           \<and> inode_load (disk st') m
               = Inr (inode\<lparr>isvalid := 1, isize := 0, direct := [0, 0, 0, 0, 0]\<rparr>)"
proof -
  let ?n = "ninodes (super_view sb) - 1"
  have split: "[1 .. ?n] = [1 .. m - 1] @ m # [m + 1 .. ?n]"
    using m by (intro upto_split3) simp_all
  have valid: "\<forall>k \<in> set [1 .. m - 1]. \<exists>inode. inode_load (disk st) k = Inr inode \<and> isvalid inode \<noteq> 0"
  proof
    fix k assume "k \<in> set [1 .. m - 1]"
    then have k: "1 \<le> k" "k < m" by auto
    with before have "is_valid_inumber (disk st) k = Inr True" by simp
    with is_valid_inumber_load [OF sb k(1)] k m
    show "\<exists>inode. inode_load (disk st) k = Inr inode \<and> isvalid inode \<noteq> 0" by simp
  qed
  from inode_save_after_load [OF slot(1)] obtain d' where
    sv: "inode_save (disk st) m (inode\<lparr>isvalid := 1, isize := 0,
           direct := replicate (nat POINTERS_PER_INODE) 0\<rparr>) = Inr d'"
    by blast
  have "create_scan [1 .. ?n] (disk st) = Inr (m, d')"
    unfolding split using create_scan_first_invalid [OF valid slot] sv by simp
  with mounted sb have "fs_create st = Inr (m, st\<lparr>disk := d'\<rparr>)"
    by (simp add: fs_create_def)
  moreover from inode_save_load_created [OF slot(1) sv]
  have "inode_load (disk (st\<lparr>disk := d'\<rparr>)) m
      = Inr (inode\<lparr>isvalid := 1, isize := 0, direct := [0, 0, 0, 0, 0]\<rparr>)"
    by simp
  ultimately show ?thesis by blast
qed

lemma fs_create_table_full:
  assumes mounted: "is_mounted st"
    and sb: "disk_read (disk st) 0 = Inr sb"
    and full: "\<forall>j. 1 \<le> j \<and> j < ninodes (super_view sb) \<longrightarrow> is_valid_inumber (disk st) j = Inr True"
  shows "fs_create st = Inr (0, st)"
proof -
  have "\<forall>k \<in> set [1 .. ninodes (super_view sb) - 1].
          \<exists>inode. inode_load (disk st) k = Inr inode \<and> isvalid inode \<noteq> 0"
  proof
    fix k assume "k \<in> set [1 .. ninodes (super_view sb) - 1]"
    then have k: "1 \<le> k" "k < ninodes (super_view sb)" by auto
    with full have "is_valid_inumber (disk st) k = Inr True" by simp
    with is_valid_inumber_load [OF sb k]
    show "\<exists>inode. inode_load (disk st) k = Inr inode \<and> isvalid inode \<noteq> 0" by simp
  qed
  from create_scan_all_valid [OF this] mounted sb show ?thesis
    by (simp add: fs_create_def)
qed

text \<open>
  C4. Claim: after create returns an inumber, that inode has valid set, size 0, all five
  direct pointers 0 and the indirect pointer 0. On the code the indirect pointer keeps the
  value the slot held: \<open>fs_create\<close> sets \<open>isvalid\<close>, \<open>size\<close> and \<open>direct[0..4]\<close> only.
  File 1 had an indirect block (block 7) and was deleted (\<open>big_deleted\<close>); \<open>fs_create\<close>
  returns 1 again, and inode 1 has \<open>indirect = 7\<close>.
\<close>

theorem create_keeps_stale_indirect_pointer:
  "is_valid_inumber (disk big_deleted) 1 = Inr False
   \<and> fs_create big_deleted = Inr (1, big_recreated)
   \<and> inode_load (disk big_recreated) 1
       = Inr \<lparr>isvalid = 1, isize = 0, direct = [0, 0, 0, 0, 0], indirect = 7\<rparr>"
  by (simp add: fs_eval)

section \<open>The overwrite phase of write\<close>

text \<open>
  C5. Claim: in the overwrite phase only the addressed byte range of a resolved data block
  is modified; every other byte of that block keeps its value. On the code this fails:
  \<open>fs_write\<close> never reads the block from the device. It copies the new bytes into its
  uninitialised local buffer and writes the whole buffer to the block. File 1 holds
  "ABCDEF" in block 2 (\<open>file6\<close>); writing "XY" at offset 0 returns 2 and leaves in block 2
  "XY" followed by what the stack held in the buffer \<open>block0\<close>: bytes 2 to 5 are those of
  \<open>block0\<close>, not "CDEF".
\<close>

theorem overwrite_replaces_whole_block:
  "fs_write block0 indirect0 file6 1 (buffer [0x58, 0x59]) 2 0
     = Inr (2, file6\<lparr>disk := (disk file6)[2 := memcpy_block block0 0 (buffer [0x58, 0x59]) 0 2]\<rparr>)
   \<and> map (data_view (disk file6 ! 2)) [0, 1, 2, 3, 4, 5] = [0x41, 0x42, 0x43, 0x44, 0x45, 0x46]
   \<and> map (data_view (memcpy_block block0 0 (buffer [0x58, 0x59]) 0 2)) [0, 1, 2, 3, 4, 5]
       = [0x58, 0x59, data_view block0 2, data_view block0 3, data_view block0 4,
          data_view block0 5]
   \<and> map (data_view (memcpy_block zero_block 0 (buffer [0x58, 0x59]) 0 2)) [0, 1, 2, 3, 4, 5]
       = [0x58, 0x59, 0, 0, 0, 0]"
  by (simp add: fs_eval)

section \<open>The order in which read enumerates blocks\<close>

text \<open>
  C7. Claim: read takes the file's blocks in slot order (direct slots, then indirect slots),
  and the block holding \<open>offset\<close> is entry \<open>offset / BLOCK_SIZE\<close> of that sequence, also when
  the pointer values are not ascending. On the code this fails: \<open>fs_read\<close> marks the
  pointers in an array indexed by block number and then scans that array upwards, so it
  takes the blocks in ascending block number. In \<open>two_BC\<close> file 2 has
  \<open>direct = [3, 2, 0, 0, 0]\<close> and size 8192: block 3 holds the "B"s written at offset 0 and
  block 2 the "C"s written at offset 4096. Reading one byte at offset 0 returns "C".
\<close>

theorem read_enumerates_by_block_number:
  "inode_load (disk two_BC) 2
     = Inr \<lparr>isvalid = 1, isize = 8192, direct = [3, 2, 0, 0, 0], indirect = 0\<rparr>
   \<and> data_view (disk two_BC ! 3) 0 = 0x42
   \<and> data_view (disk two_BC ! 2) 0 = 0x43
   \<and> fs_read two_BC 2 1 0 = Inr (1, [0x43])"
  by (simp add: fs_eval)

section \<open>The intra-block offset of write\<close>

text \<open>For the first chunk of a call the offset is in range: it is \<open>offset mod 4096\<close>.\<close>

lemma first_block_offset_in_range:
  assumes "0 \<le> offset"
  shows "(offset - (offset sdiv DISK_BLOCK_SIZE) * DISK_BLOCK_SIZE) smod DISK_BLOCK_SIZE
         = offset mod 4096"
proof -
  have d: "offset sdiv 4096 = offset div 4096"
    using assms by (simp add: signed_divide_int_def sgn_if)
  have m: "offset - offset div 4096 * 4096 = offset mod 4096"
    by (simp add: minus_div_mult_eq_mod)
  have "0 \<le> offset mod 4096" by simp
  then have "0 < offset mod 4096 \<or> offset mod 4096 = 0" by linarith
  then have "(offset mod 4096) smod 4096 = (offset mod 4096) mod 4096"
    by (auto simp: signed_modulo_int_def sgn_if)
  then show ?thesis
    by (simp add: DISK_BLOCK_SIZE_def d m)
qed

text \<open>For the second chunk of a call whose offset is not a multiple of 4096 it is negative:
  \<open>offset_ptr\<close> has been incremented and \<open>offset\<close> has not been advanced.\<close>

lemma second_block_offset_negative:
  assumes "0 \<le> offset" and "offset mod 4096 \<noteq> 0"
  shows "(offset - (offset sdiv DISK_BLOCK_SIZE + 1) * DISK_BLOCK_SIZE) smod DISK_BLOCK_SIZE
         = offset mod 4096 - 4096"
proof -
  define r where "r = offset mod 4096"
  have "0 \<le> offset mod 4096" "offset mod 4096 < 4096"
    by simp_all
  with assms(2) have r: "0 < r" "r < 4096"
    unfolding r_def by linarith+
  have d: "offset sdiv 4096 = offset div 4096"
    using assms(1) by (simp add: signed_divide_int_def sgn_if)
  have e: "offset - (offset div 4096 + 1) * 4096 = r - 4096"
    by (simp add: r_def algebra_simps minus_mult_div_eq_mod)
  have "(- r) mod 4096 = 4096 - r"
    using r by (simp add: zmod_zminus1_eq_if)
  then have s: "(r - 4096) smod 4096 = r - 4096"
    using r by (simp add: signed_modulo_int_def sgn_if abs_if)
  show ?thesis
    unfolding DISK_BLOCK_SIZE_def d e s by (simp add: r_def)
qed

text \<open>
  C10. Claim: at every chunk copy of write the intra-block offset
  \<open>(offset - offset_ptr * BLOCK_SIZE) mod BLOCK_SIZE\<close> is nonnegative and below \<open>BLOCK_SIZE\<close>,
  so every copy stays inside the block buffer. On the code this fails: \<open>offset\<close> is never
  advanced while \<open>offset_ptr\<close> is incremented after each chunk, and C's \<open>%\<close> keeps the sign
  of a negative dividend. Writing 5000 bytes at offset 1 to the empty file 1 copies 4095
  bytes at offset 1, and for the second chunk computes the offset \<open>- 4095\<close>: the copy of the
  remaining 905 bytes starts 4095 bytes before the buffer.
\<close>

theorem write_block_offset_negative:
  "(1 - 1 * DISK_BLOCK_SIZE) smod DISK_BLOCK_SIZE = - 4095
   \<and> block_copy_in chunk1 (- 4095) (fill 0x41) 4095 905 = Inl OutOfBounds
   \<and> fs_write zero_block zero_block created10 1 (fill 0x41) 5000 1 = Inl OutOfBounds"
  by (simp add: fs_eval)

section \<open>The indirect block\<close>

text \<open>
  C8. Claim: when a sequence of writes drives a file's size past \<open>5 * BLOCK_SIZE\<close>, exactly
  one free block is claimed as the indirect block. On the code this fails: each call of
  \<open>fs_write\<close> decides whether the file has an indirect block from
  \<open>ceil(size / BLOCK_SIZE) > 5\<close>, not from \<open>inode.indirect\<close>. File 1 of the 12-block volume has
  size 20479 and direct blocks 3 to 7 (\<open>size_20479\<close>). Writing one byte at offset 20479
  claims block 8 as the indirect block and block 9 for the byte: the size is 20480. Writing
  one more byte at offset 20480 claims block 10 as the indirect block again, and block 11
  for the byte: the size is 20481, \<open>inode.indirect\<close> is 10, and blocks 8 and 9 stay marked
  busy but belong to no file.
\<close>

theorem second_indirect_block_claimed:
  "fs_write zero_block zero_block size_20479 1 (fill 0x42) 1 20479 = Inr (1, size_20480)
   \<and> inode_load (disk size_20480) 1
       = Inr \<lparr>isvalid = 1, isize = 20480, direct = [3, 4, 5, 6, 7], indirect = 8\<rparr>
   \<and> fs_write zero_block zero_block size_20480 1 (fill 0x43) 1 20480 = Inr (1, size_20481)
   \<and> inode_load (disk size_20481) 1
       = Inr \<lparr>isvalid = 1, isize = 20481, direct = [3, 4, 5, 6, 7], indirect = 10\<rparr>
   \<and> free_block_bm size_20479 ! 8 \<and> free_block_bm size_20479 ! 10
   \<and> free_block_bm size_20481 = replicate 12 False"
  by (simp add: fs_eval)

section \<open>The preconditions of write\<close>

text \<open>
  C2. Claim: write fails returning zero under exactly the preconditions of read (not
  mounted, invalid inumber, \<open>length <= 0\<close>, \<open>offset < 0\<close>, or \<open>offset >=\<close> the file's size),
  and a precondition failure has no side effects. On the code the last precondition is
  not one of write's: \<open>fs_write\<close> has no such check, since a write at or past the end is how
  a file grows. On the empty file 1, reading one byte at offset 0 returns 0, and writing
  one byte at offset 0 returns 1 and changes the volume.
\<close>

theorem write_at_end_of_file_succeeds:
  "fs_getsize created10 1 = Inr 0
   \<and> fs_read created10 1 1 0 = Inr (0, [])
   \<and> fs_write zero_block zero_block created10 1 (buffer [0x41]) 1 0 = Inr (1, file_A)
   \<and> file_A \<noteq> created10"
  by (simp add: fs_eval)

text \<open>
  C2, amended: when the volume is not mounted, or the inumber is invalid, or
  \<open>length <= 0\<close>, or \<open>offset < 0\<close>, write returns zero and leaves the device and the
  free-block array as they were, and read returns zero under the same four conditions.
  (An inumber is invalid when \<open>is_valid_inumber\<close> returns false; the two last conditions
  are checked once \<open>is_valid_inumber\<close> has returned true.)
\<close>

theorem write_precondition_failure:
  assumes "\<not> is_mounted st \<or> is_valid_inumber (disk st) inumber = Inr False
           \<or> (is_valid_inumber (disk st) inumber = Inr True \<and> (len \<le> 0 \<or> offset < 0))"
  shows "fs_write block0 indirect0 st inumber src len offset = Inr (0, st)
         \<and> fs_read st inumber len offset = Inr (0, [])"
  using assms by (auto simp: fs_write_def fs_read_def)

theorem write_precondition_failure_witness:
  "is_valid_inumber (disk created10) 1 = Inr True
   \<and> fs_write zero_block zero_block created10 1 (buffer [0x41]) 0 0 = Inr (0, created10)
   \<and> fs_read created10 1 0 0 = Inr (0, [])"
proof -
  have v: "is_valid_inumber (disk created10) 1 = Inr True"
    by (simp add: fs_eval)
  then have h: "\<not> is_mounted created10 \<or> is_valid_inumber (disk created10) 1 = Inr False
           \<or> (is_valid_inumber (disk created10) 1 = Inr True \<and> ((0::int) \<le> 0 \<or> (0::int) < 0))"
    by simp
  from write_precondition_failure [OF h] v show ?thesis by simp
qed

section \<open>Format\<close>



section \<open>The inode slot after delete\<close>





end
